theory Spec2Isabelle
  imports Main "HOL-Library.AList" "HOL-Library.Sublist"
begin

section \<open>Values, exceptions and keyword arguments\<close>

text \<open>
  The handlers of the framework receive and return JSON documents: the decoded body of a
  request, the configuration of the agent, the body of a response. A Python \<open>dict\<close> with
  string keys is an association list in insertion order, read with \<open>map_of\<close> and written
  with \<open>AList.update\<close> (an existing key keeps its place, a new key goes to the end, as in
  Python). JSON numbers are integers here.
\<close>

datatype json =
    JNull
  | JBool bool
  | JInt int
  | JStr string
  | JList "json list"
  | JDict "(string \<times> json) list"

type_synonym kwargs = "(string \<times> json) list"

text \<open>
  The exception classes that the sources raise, catch or let through. \<open>Exception\<close> stands
  for every other class derived from Python's \<open>Exception\<close>, \<open>BaseException\<close> for the
  classes outside it (\<open>KeyboardInterrupt\<close>, \<open>SystemExit\<close>). The string is the argument
  the exception was raised with: its message (\<open>error.message\<close>), for a \<open>KeyError\<close> the
  key that is missing.
\<close>

datatype exn_class =
    HTTPNotFound
  | ValidationError
  | KeyError
  | TypeError
  | ClientOSError
  | Exception
  | BaseException

datatype exn = Exn exn_class string

fun exn_class_of :: "exn \<Rightarrow> exn_class" where
  "exn_class_of (Exn c m) = c"

fun exn_message :: "exn \<Rightarrow> string" where
  "exn_message (Exn c m) = m"

text \<open>
  \<open>str(exc)\<close>: the message; for a \<open>KeyError\<close> the key between quotes (the \<open>repr\<close> of a
  key of plain characters).
\<close>

fun py_str :: "exn \<Rightarrow> string" where
  "py_str (Exn KeyError k) = [CHR 0x27] @ k @ [CHR 0x27]"
| "py_str (Exn c m) = m"

text \<open>\<open>isinstance(exc, Exception)\<close>: every class above but \<open>BaseException\<close> derives from it.\<close>

fun is_Exception :: "exn_class \<Rightarrow> bool" where
  "is_Exception BaseException = False"
| "is_Exception c = True"

text \<open>
  \<open>obj[key]\<close> with a string key: a dict without the key raises \<open>KeyError\<close>, a value of any
  other JSON type raises \<open>TypeError\<close> (a list or a string wants an integer index, \<open>None\<close>,
  a number and a boolean are not subscriptable).
\<close>

fun py_getitem :: "json \<Rightarrow> string \<Rightarrow> exn + json" where
  "py_getitem (JDict kvs) k =
     (case map_of kvs k of
        None \<Rightarrow> Inl (Exn KeyError k)
      | Some v \<Rightarrow> Inr v)"
| "py_getitem j k = Inl (Exn TypeError ''not subscriptable with a string key'')"

text \<open>\<open>f(**obj)\<close>: the argument after \<open>**\<close> must be a mapping, else \<open>TypeError\<close>.\<close>

fun py_kwargs :: "json \<Rightarrow> exn + kwargs" where
  "py_kwargs (JDict kvs) = Inr kvs"
| "py_kwargs j = Inl (Exn TypeError ''argument after ** must be a mapping'')"

text \<open>Truth value of a JSON value, as Python's \<open>bool(obj)\<close>.\<close>

fun json_truthy :: "json \<Rightarrow> bool" where
  "json_truthy JNull = False"
| "json_truthy (JBool b) = b"
| "json_truthy (JInt n) = (n \<noteq> 0)"
| "json_truthy (JStr s) = (s \<noteq> [])"
| "json_truthy (JList xs) = (xs \<noteq> [])"
| "json_truthy (JDict kvs) = (kvs \<noteq> [])"


section \<open>The request middleware (nyuki/api.py)\<close>

text \<open>
  An \<open>aiohttp\<close> response: the status and the body. \<open>web.Response()\<close> is the empty answer
  with status 200.
\<close>

record web_response =
  web_status :: int
  web_body :: "string option"

definition web_Response :: web_response where
  "web_Response = \<lparr>web_status = 200, web_body = None\<rparr>"

text \<open>
  What a capability handler may hand back to the middleware: nothing (\<open>None\<close>), an
  \<open>aiohttp\<close> response object, or any other value. In the \<open>aiohttp\<close> this code is
  written for (the one of \<open>make_handler\<close> and \<open>finish_connections\<close>) a response object
  defines neither \<open>__bool__\<close> nor \<open>__len__\<close>, so it is true in a boolean context.
\<close>

datatype pyobj =
    PyNone
  | WebResponse web_response
  | PyValue json

fun truthy :: "pyobj \<Rightarrow> bool" where
  "truthy PyNone = False"
| "truthy (WebResponse r) = True"
| "truthy (PyValue j) = json_truthy j"

fun isinstance_web_Response :: "pyobj \<Rightarrow> bool" where
  "isinstance_web_Response (WebResponse r) = True"
| "isinstance_web_Response v = False"

fun as_web_response :: "pyobj \<Rightarrow> web_response" where
  "as_web_response (WebResponse r) = r"
| "as_web_response v = web_Response"

text \<open>The request, as far as the middleware reads it: the parameters matched in the path.\<close>

record request =
  match_info :: "(string \<times> string) list"

text \<open>
  The event loop of the application, as far as the middleware touches it: whether an
  exception handler has been set (\<open>loop._exception_handler\<close> is not \<open>None\<close>), and the
  contexts handed to \<open>loop.call_exception_handler\<close>, oldest first.
\<close>

record exception_context =
  message :: string
  exception :: exn

record loop =
  exception_handler :: bool
  reported :: "exception_context list"

definition call_exception_handler :: "exception_context \<Rightarrow> loop \<Rightarrow> loop" where
  "call_exception_handler ctx l = l\<lparr>reported := reported l @ [ctx]\<rparr>"

text \<open>
  \<open>mw_capability(app, capa_handler)\<close> returns the middleware, a function of the request.
  The handler runs on its own state \<open>'s\<close> (the agent it belongs to); the middleware runs
  on the loop of the application. An exception leaves the middleware as \<open>Inl\<close>.
  \<^verbatim>\<open>
      try:
          capa_resp = await capa_handler(request, **request.match_info)
      except web.HTTPNotFound:
          raise
      except Exception as exc:
          if app.loop._exception_handler:
              app.loop.call_exception_handler({
                  'message': str(exc),
                  'exception': exc
              })
          raise exc
      if capa_resp and isinstance(capa_resp, web.Response):
          return capa_resp
      return web.Response()
  \<close>
\<close>

type_synonym ('r, 's) capa_handler =
  "'r request_scheme \<Rightarrow> (string \<times> string) list \<Rightarrow> 's \<Rightarrow> (exn + pyobj) \<times> 's"

fun mw_capability ::
  "('r, 's) capa_handler \<Rightarrow> 'r request_scheme \<Rightarrow> loop \<times> 's \<Rightarrow> (exn + web_response) \<times> loop \<times> 's"
where
  "mw_capability capa_handler req (l, s) =
     (case capa_handler req (match_info req) s of
        (Inl exc, s') \<Rightarrow>
          if exn_class_of exc = HTTPNotFound then (Inl exc, l, s')
          else if is_Exception (exn_class_of exc) then
            (Inl exc,
             (if exception_handler l
              then call_exception_handler \<lparr>message = py_str exc, exception = exc\<rparr> l
              else l),
             s')
          else (Inl exc, l, s')
      | (Inr capa_resp, s') \<Rightarrow>
          if truthy capa_resp \<and> isinstance_web_Response capa_resp
          then (Inr (as_web_response capa_resp), l, s')
          else (Inr web_Response, l, s'))"

text \<open>
  Handlers and loops for the concrete runs below: a handler that raises
  \<open>Exception('boom')\<close>, one that is interrupted (\<open>KeyboardInterrupt\<close>, outside
  \<open>Exception\<close>), one that raises "not found", one that returns a response object, one
  that returns nothing.
\<close>

definition boom_handler :: "(unit, unit) capa_handler" where
  "boom_handler req kw s = (Inl (Exn Exception ''boom''), s)"

definition interrupted_handler :: "(unit, unit) capa_handler" where
  "interrupted_handler req kw s = (Inl (Exn BaseException ''KeyboardInterrupt''), s)"

definition missing_handler :: "(unit, unit) capa_handler" where
  "missing_handler req kw s = (Inl (Exn HTTPNotFound ''Not Found''), s)"

definition silent_handler :: "(unit, unit) capa_handler" where
  "silent_handler req kw s = (Inr PyNone, s)"

definition teapot_handler :: "(unit, unit) capa_handler" where
  "teapot_handler req kw s = (Inr (WebResponse \<lparr>web_status = 418, web_body = Some ''{}''\<rparr>), s)"

definition loop_with_handler :: loop where
  "loop_with_handler = \<lparr>exception_handler = True, reported = []\<rparr>"

definition loop_without_handler :: loop where
  "loop_without_handler = \<lparr>exception_handler = False, reported = []\<rparr>"

definition request0 :: request where
  "request0 = \<lparr>match_info = []\<rparr>"


section \<open>The agent (nyuki/nyuki.py)\<close>

text \<open>
  The bus object the agent holds, as the agent sees it: the object built by
  \<open>Bus(loop=..., event_manager=..., **kwargs)\<close>, known by the keyword arguments of its
  construction.
\<close>

datatype bus = Bus kwargs

text \<open>
  Modelled from the spec: the Exposer (module \<open>nyuki.capabilities\<close>) is not part of the
  sources. It owns the routing table of the registered capabilities and the HTTP server,
  which listens with the options it was given last (the host and the port among them) or
  not at all. \<open>restart(**options)\<close> tears the server down and rebuilds it with the new
  options, preserving the registered capabilities; \<open>shutdown()\<close> closes the listening
  socket. A capability is a declared resource: an endpoint template and a version.
\<close>

record capability =
  endpoint :: string
  version :: "string option"

record exposer =
  capabilities :: "capability list"
  listening :: "kwargs option"

definition restart :: "kwargs \<Rightarrow> exposer \<Rightarrow> exposer" where
  "restart options e = e\<lparr>listening := Some options\<rparr>"

definition shutdown :: "exposer \<Rightarrow> exposer" where
  "shutdown e = e\<lparr>listening := None\<rparr>"

text \<open>
  Modelled from the spec: the \<open>Response\<close> of module \<open>nyuki.capabilities\<close> is not part of
  the sources. It is a pair of a status code and a JSON body, built by
  \<open>Response(body, status=200)\<close>.
\<close>

record response =
  status :: int
  body :: json

definition Response :: "json \<Rightarrow> int \<Rightarrow> response" where
  "Response b st = \<lparr>status = st, body = b\<rparr>"

text \<open>
  The calls the agent makes into its collaborators (the bus, the Exposer, the event loop,
  the configuration file, the logging library), none of which is part of the sources.
  Each call is recorded, in order, in the field \<open>calls\<close> of the agent, and is taken to
  return normally. A \<open>disconnect\<close> called with no argument leaves the timeout to the bus
  (\<open>None\<close>).
\<close>

datatype call =
    Write_conf_json json string
  | Logging_dictConfig json
  | Bus_init kwargs
  | Bus_connect bus
  | Bus_disconnect bus "int option"
  | Exposer_restart kwargs
  | Exposer_shutdown
  | Event_loop_stop

text \<open>
  The fields of a \<open>Nyuki\<close> object that its methods read and write: \<open>config_filename\<close>,
  \<open>_config\<close>, \<open>_bus\<close>, \<open>_exposer\<close>, and of \<open>event_loop\<close> whether it runs.
\<close>

record nyuki =
  config_filename :: string
  config :: json
  bus :: bus
  exposer :: exposer
  event_loop_running :: bool
  calls :: "call list"

definition record_call :: "call \<Rightarrow> 'a nyuki_scheme \<Rightarrow> 'a nyuki_scheme" where
  "record_call c s = s\<lparr>calls := calls s @ [c]\<rparr>"

text \<open>
  \<^verbatim>\<open>
      def _make_bus(self):
          return Bus(
              loop=self.event_loop,
              event_manager=self.event_manager,
              **self._config['bus'])
  \<close>
  The call passes \<open>loop\<close> and \<open>event_manager\<close> by keyword: a section that has one of
  these keys gives the keyword twice, and Python raises \<open>TypeError\<close> before \<open>Bus\<close> is
  entered.
\<close>

definition make_bus :: "'a nyuki_scheme \<Rightarrow> (exn + bus) \<times> 'a nyuki_scheme" where
  "make_bus s =
     (case py_getitem (config s) ''bus'' of
        Inl e \<Rightarrow> (Inl e, s)
      | Inr bus_conf \<Rightarrow>
          (case py_kwargs bus_conf of
             Inl e \<Rightarrow> (Inl e, s)
           | Inr kw \<Rightarrow>
               if map_of kw ''loop'' = None \<and> map_of kw ''event_manager'' = None
               then (Inr (Bus kw), record_call (Bus_init kw) s)
               else (Inl (Exn TypeError ''got multiple values for keyword argument''), s)))"

text \<open>
  \<^verbatim>\<open>
      def stop(self, timeout=5):
          self._exposer.shutdown()
          self._bus.disconnect(timeout=timeout)
          self.event_loop.stop()
  \<close>
\<close>

definition stop :: "int \<Rightarrow> 'a nyuki_scheme \<Rightarrow> 'a nyuki_scheme" where
  "stop timeout s =
     (let s1 = record_call Exposer_shutdown (s\<lparr>exposer := shutdown (exposer s)\<rparr>);
          s2 = record_call (Bus_disconnect (bus s1) (Some timeout)) s1
      in record_call Event_loop_stop (s2\<lparr>event_loop_running := False\<rparr>))"

text \<open>\<open>abort(signum, frame)\<close> logs the signal and calls \<open>self.stop()\<close>, with the default timeout.\<close>

definition abort :: "int \<Rightarrow> 'a nyuki_scheme \<Rightarrow> 'a nyuki_scheme" where
  "abort signum s = stop 5 s"

text \<open>
  \<open>merge_configs\<close> (module \<open>nyuki.config\<close>) is not part of the sources: it is a parameter
  of the methods that call it. It takes the current configuration and the new ones, and
  returns the merged configuration or raises, \<open>ValidationError\<close> among others. It
  returns a new value and leaves its arguments as they are (the spec: the configuration
  is validated before it is applied and replaced wholesale, never mutated in place).
  \<^verbatim>\<open>
      def update_config(self, *new_confs):
          self._config = merge_configs(self._config, *new_confs)
  \<close>
\<close>

type_synonym merge_configs = "json \<Rightarrow> json list \<Rightarrow> exn + json"

definition update_config ::
  "merge_configs \<Rightarrow> json list \<Rightarrow> 'a nyuki_scheme \<Rightarrow> (exn + unit) \<times> 'a nyuki_scheme"
where
  "update_config merge_configs new_confs s =
     (case merge_configs (config s) new_confs of
        Inl e \<Rightarrow> (Inl e, s)
      | Inr c \<Rightarrow> (Inr (), s\<lparr>config := c\<rparr>))"

text \<open>
  \<^verbatim>\<open>
      def save_config(self):
          write_conf_json(self.config, self.config_filename)
  \<close>
\<close>

definition save_config :: "'a nyuki_scheme \<Rightarrow> 'a nyuki_scheme" where
  "save_config s = record_call (Write_conf_json (config s) (config_filename s)) s"

text \<open>
  \<^verbatim>\<open>
      def reload(self):
          self.save_config()
          self._bus.disconnect()
          logging.config.dictConfig(self._config['log'])
          self._bus = self._make_bus()
          self._bus.connect()
          self._exposer.restart(**self._config['api'])
  \<close>
  A missing section of the configuration raises \<open>KeyError\<close> where it is read, and the
  steps before it have been done.
\<close>

definition reload :: "'a nyuki_scheme \<Rightarrow> (exn + unit) \<times> 'a nyuki_scheme" where
  "reload s =
     (let s1 = save_config s;
          s2 = record_call (Bus_disconnect (bus s1) None) s1
      in case py_getitem (config s2) ''log'' of
           Inl e \<Rightarrow> (Inl e, s2)
         | Inr log_conf \<Rightarrow>
             (let s3 = record_call (Logging_dictConfig log_conf) s2
              in case make_bus s3 of
                   (Inl e, s4) \<Rightarrow> (Inl e, s4)
                 | (Inr b, s4) \<Rightarrow>
                     (let s5 = record_call (Bus_connect b) (s4\<lparr>bus := b\<rparr>)
                      in case py_getitem (config s5) ''api'' of
                           Inl e \<Rightarrow> (Inl e, s5)
                         | Inr api_conf \<Rightarrow>
                             (case py_kwargs api_conf of
                                Inl e \<Rightarrow> (Inl e, s5)
                              | Inr kw \<Rightarrow>
                                  (Inr (),
                                   record_call (Exposer_restart kw)
                                     (s5\<lparr>exposer := restart kw (exposer s5)\<rparr>))))))"

text \<open>
  The built-in capability \<open>/config\<close>. \<open>self.reload()\<close> is the method of the object at
  hand ("Override this to implement a reloading to your Nyuki"), so it is a parameter.
  \<^verbatim>\<open>
      def get(self, request):
          return Response(self._config)

      def patch(self, request):
          try:
              self.update_config(request)
          except ValidationError as error:
              return Response(body={'error': error.message}, status=400)
          else:
              self.reload()
          return Response(self._config)
  \<close>
\<close>

definition Configuration_get :: "json \<Rightarrow> 'a nyuki_scheme \<Rightarrow> (exn + response) \<times> 'a nyuki_scheme" where
  "Configuration_get request s = (Inr (Response (config s) 200), s)"

definition Configuration_patch ::
  "merge_configs \<Rightarrow> ('a nyuki_scheme \<Rightarrow> (exn + unit) \<times> 'a nyuki_scheme) \<Rightarrow>
   json \<Rightarrow> 'a nyuki_scheme \<Rightarrow> (exn + response) \<times> 'a nyuki_scheme"
where
  "Configuration_patch merge_configs self_reload request s =
     (case update_config merge_configs [request] s of
        (Inl error, s1) \<Rightarrow>
          if exn_class_of error = ValidationError
          then (Inr (Response (JDict [(''error'', JStr (exn_message error))]) 400), s1)
          else (Inl error, s1)
      | (Inr u, s1) \<Rightarrow>
          (case self_reload s1 of
             (Inl e, s2) \<Rightarrow> (Inl e, s2)
           | (Inr u, s2) \<Rightarrow> (Inr (Response (config s2) 200), s2)))"


text \<open>
  A concrete agent for the runs below: its configuration, the agent once started, a
  patch of the port of the API, and the configuration and the agent after that patch.
  \<open>shallow_merge\<close> is a stand-in for \<open>merge_configs\<close>: it accepts one object and merges
  its top-level keys. \<open>stamping_reload\<close> is an overriding \<open>reload\<close> that replaces the
  configuration.
\<close>

definition config0 :: json where
  "config0 = JDict
     [(''log'', JDict [(''version'', JInt 1)]),
      (''bus'', JDict [(''jid'', JStr ''sample@localhost''), (''password'', JStr ''secret'')]),
      (''api'', JDict [(''host'', JStr ''0.0.0.0''), (''port'', JInt 5558)])]"

definition nyuki0 :: nyuki where
  "nyuki0 =
     \<lparr>config_filename = ''conf.json'',
      config = config0,
      bus = Bus [(''jid'', JStr ''sample@localhost''), (''password'', JStr ''secret'')],
      exposer =
        \<lparr>capabilities = [\<lparr>endpoint = ''/config'', version = Some ''v1''\<rparr>],
         listening = Some [(''host'', JStr ''0.0.0.0''), (''port'', JInt 5558)]\<rparr>,
      event_loop_running = True,
      calls = []\<rparr>"

definition port_patch :: json where
  "port_patch = JDict [(''api'', JDict [(''host'', JStr ''0.0.0.0''), (''port'', JInt 8080)])]"

definition config1 :: json where
  "config1 = JDict
     [(''log'', JDict [(''version'', JInt 1)]),
      (''bus'', JDict [(''jid'', JStr ''sample@localhost''), (''password'', JStr ''secret'')]),
      (''api'', JDict [(''host'', JStr ''0.0.0.0''), (''port'', JInt 8080)])]"

definition nyuki1 :: nyuki where
  "nyuki1 =
     \<lparr>config_filename = ''conf.json'',
      config = config1,
      bus = Bus [(''jid'', JStr ''sample@localhost''), (''password'', JStr ''secret'')],
      exposer =
        \<lparr>capabilities = [\<lparr>endpoint = ''/config'', version = Some ''v1''\<rparr>],
         listening = Some [(''host'', JStr ''0.0.0.0''), (''port'', JInt 8080)]\<rparr>,
      event_loop_running = True,
      calls =
        [Write_conf_json config1 ''conf.json'',
         Bus_disconnect
           (Bus [(''jid'', JStr ''sample@localhost''), (''password'', JStr ''secret'')]) None,
         Logging_dictConfig (JDict [(''version'', JInt 1)]),
         Bus_init [(''jid'', JStr ''sample@localhost''), (''password'', JStr ''secret'')],
         Bus_connect (Bus [(''jid'', JStr ''sample@localhost''), (''password'', JStr ''secret'')]),
         Exposer_restart [(''host'', JStr ''0.0.0.0''), (''port'', JInt 8080)]]\<rparr>"



fun shallow_merge :: merge_configs where
  "shallow_merge (JDict cur) [JDict new] = Inr (JDict (AList.merge cur new))"
| "shallow_merge cur new_confs = Inl (Exn ValidationError ''not of type object'')"

definition stamping_reload :: "nyuki \<Rightarrow> (exn + unit) \<times> nyuki" where
  "stamping_reload s = (Inr (), s\<lparr>config := JDict [(''reloaded'', JBool True)]\<rparr>)"


section \<open>The sample agent (examples/sample.py)\<close>

text \<open>
  \<open>class Sample(Nyuki)\<close> adds the message store to the agent; \<open>__init__\<close> fills it with
  two messages.
\<close>

record sample = nyuki +
  messages :: "(string \<times> json) list"

definition Sample_messages :: "(string \<times> json) list" where
  "Sample_messages = [(''1'', JStr ''message 1''), (''2'', JStr ''message 2'')]"

text \<open>
  The resource \<open>/message/{mid:\d+}\<close>. The handlers take the decoded body of the request
  and the path parameter \<open>mid\<close>, a string.
  \<^verbatim>\<open>
      def get(self, request, mid):
          if mid not in self.messages:
              return Response(status=404,
                              body={'message': 'message does not exists'})
          return Response({'message': self.messages[mid]})
  \<close>
\<close>

definition Message_get ::
  "json \<Rightarrow> string \<Rightarrow> 'a sample_scheme \<Rightarrow> (exn + response) \<times> 'a sample_scheme"
where
  "Message_get request mid s =
     (if map_of (messages s) mid = None
      then (Inr (Response (JDict [(''message'', JStr ''message does not exists'')]) 404), s)
      else (case py_getitem (JDict (messages s)) mid of
              Inl e \<Rightarrow> (Inl e, s)
            | Inr v \<Rightarrow> (Inr (Response (JDict [(''message'', v)]) 200), s)))"

text \<open>
  \<^verbatim>\<open>
      def patch(self, request, mid):
          try:
              self.messages[mid] = request['message']
          except KeyError:
              return Response(status=400,
                              body={'message': 'missing message'})
          return Response(
              status=200,
              body={'message': self.messages[mid]}
          )
  \<close>
\<close>

definition Message_patch ::
  "json \<Rightarrow> string \<Rightarrow> 'a sample_scheme \<Rightarrow> (exn + response) \<times> 'a sample_scheme"
where
  "Message_patch request mid s =
     (case py_getitem request ''message'' of
        Inl e \<Rightarrow>
          if exn_class_of e = KeyError
          then (Inr (Response (JDict [(''message'', JStr ''missing message'')]) 400), s)
          else (Inl e, s)
      | Inr v \<Rightarrow>
          (let s1 = s\<lparr>messages := AList.update mid v (messages s)\<rparr>
           in case py_getitem (JDict (messages s1)) mid of
                Inl e \<Rightarrow> (Inl e, s1)
              | Inr stored \<Rightarrow> (Inr (Response (JDict [(''message'', stored)]) 200), s1)))"

text \<open>
  Modelled from the spec: the router that the Exposer builds from the \<open>resource\<close>
  declarations is not part of the sources. A request whose path does not match the
  endpoint template fails the route match: "not found" is raised and no handler runs.
  The template here is the one of the source, \<open>/message/{mid:\d+}\<close>, matched against the
  whole path below the root of the API: the prefix \<open>/message/\<close>, then one or more digits
  (the digits \<open>0\<close> to \<open>9\<close>: the path is a string of bytes here).
\<close>

definition is_digit :: "char \<Rightarrow> bool" where
  "is_digit c = (c \<in> set ''0123456789'')"

definition numeric :: "string \<Rightarrow> bool" where
  "numeric seg = (seg \<noteq> [] \<and> list_all is_digit seg)"

definition match_Message :: "string \<Rightarrow> string option" where
  "match_Message path =
     (if take 9 path = ''/message/'' \<and> numeric (drop 9 path)
      then Some (drop 9 path)
      else None)"

definition route_Message ::
  "(json \<Rightarrow> string \<Rightarrow> 's \<Rightarrow> (exn + response) \<times> 's) \<Rightarrow>
   string \<Rightarrow> json \<Rightarrow> 's \<Rightarrow> (exn + response) \<times> 's"
where
  "route_Message handler path request s =
     (case match_Message path of
        None \<Rightarrow> (Inl (Exn HTTPNotFound ''Not Found''), s)
      | Some mid \<Rightarrow> handler request mid s)"

text \<open>The sample agent after \<open>__init__\<close>, on the configuration above.\<close>

definition sample0 :: sample where
  "sample0 =
     \<lparr>config_filename = ''conf.json'',
      config = config0,
      bus = Bus [(''jid'', JStr ''sample@localhost''), (''password'', JStr ''secret'')],
      exposer =
        \<lparr>capabilities =
           [\<lparr>endpoint = ''/config'', version = Some ''v1''\<rparr>,
            \<lparr>endpoint = ''/message'', version = None\<rparr>,
            \<lparr>endpoint = ''/message/{mid:'' @ [CHR 0x5C] @ ''d+}'', version = None\<rparr>],
         listening = None\<rparr>,
      event_loop_running = False,
      calls = [],
      messages = Sample_messages\<rparr>"


section \<open>The bus (nyuki/bus.py)\<close>

text \<open>
  Modelled from the spec: the module \<open>nyuki.bus\<close> is not part of the sources, only its
  tests are (tests/bus_test.py). The agent above knows its bus by the arguments of its
  construction only; this is the bus itself. It has its own topic and the domain of the
  rooms; the address of the room of a topic is the name of the topic, \<open>@\<close>, and the
  domain. \<open>sent\<close> is what the bus has handed to the transport, oldest first.
\<close>

record stanza =
  mto :: string
  mbody :: string

record bus_session =
  topic :: string
  mucs_domain :: string
  sent :: "stanza list"

definition muc_address :: "bus_session \<Rightarrow> string \<Rightarrow> string" where
  "muc_address b topic_name = topic_name @ ''@'' @ mucs_domain b"

text \<open>\<open>isinstance(payload, dict)\<close>.\<close>

fun is_dict :: "json \<Rightarrow> bool" where
  "is_dict (JDict kvs) = True"
| "is_dict j = False"

text \<open>
  Modelled from the spec: \<open>publish(payload)\<close> fails with a type error if the payload is
  not a structured mapping; else it serializes the payload to JSON and sends it to the
  agent's own topic, and returns without waiting for anything. \<open>json.dumps\<close> is the
  parameter \<open>dumps\<close>.
\<close>

definition bus_publish ::
  "(json \<Rightarrow> string) \<Rightarrow> json \<Rightarrow> bus_session \<Rightarrow> (exn + unit) \<times> bus_session"
where
  "bus_publish dumps payload b =
     (if \<not> is_dict payload
      then (Inl (Exn TypeError ''payload must be a dict''), b)
      else (Inr (),
            b\<lparr>sent := sent b @ [\<lparr>mto = muc_address b (topic b), mbody = dumps payload\<rparr>]\<rparr>))"

text \<open>
  Modelled from the spec: \<open>request(recipient, endpoint, http_method, data=None)\<close> sends
  the JSON of \<open>data\<close> with the method to the URL of the endpoint and returns the reply
  (its status and its parsed body). On a transport-level error it does not raise: it
  publishes the document \<open>{endpoint, error, data}\<close> and returns the exception. The test
  \<open>test_001c_request_error\<close> gives the URL (\<open>http://localhost:8080/None/api/url\<close> for the
  recipient \<open>None\<close> and the endpoint \<open>url\<close>) and the field \<open>error\<close>, a rendering of the
  exception (\<open>ClientOSError()\<close>): the parameter \<open>render\<close>. The HTTP client is the
  parameter \<open>transport\<close>, from the method, the URL and the data to an exception or a reply.
\<close>

record reply =
  reply_status :: int
  reply_json :: "json option"

datatype request_result = Reply reply | Failed exn

definition request_url :: "string option \<Rightarrow> string \<Rightarrow> string" where
  "request_url recipient endpoint_name =
     ''http://localhost:8080/''
       @ (case recipient of None \<Rightarrow> ''None'' | Some r \<Rightarrow> r)
       @ ''/api/'' @ endpoint_name"

definition bus_request ::
  "(json \<Rightarrow> string) \<Rightarrow> (exn \<Rightarrow> string) \<Rightarrow> (string \<Rightarrow> string \<Rightarrow> string \<Rightarrow> exn + reply) \<Rightarrow>
   string option \<Rightarrow> string \<Rightarrow> string \<Rightarrow> json \<Rightarrow> bus_session \<Rightarrow>
   (exn + request_result) \<times> bus_session"
where
  "bus_request dumps render transport recipient endpoint_name http_method data b =
     (let url = request_url recipient endpoint_name
      in case transport http_method url (dumps data) of
           Inr r \<Rightarrow> (Inr (Reply r), b)
         | Inl exc \<Rightarrow>
             (case bus_publish dumps
                     (JDict [(''endpoint'', JStr url),
                             (''error'', JStr (render exc)),
                             (''data'', data)]) b of
                (Inl e, b1) \<Rightarrow> (Inl e, b1)
              | (Inr u, b1) \<Rightarrow> (Inr (Failed exc), b1)))"

text \<open>
  The bus of the tests (\<open>Bus('login@localhost', 'login')\<close>), an HTTP client that cannot
  connect, and stand-ins for \<open>json.dumps\<close> and for the rendering of an exception.
\<close>

definition test_bus :: bus_session where
  "test_bus = \<lparr>topic = ''login'', mucs_domain = ''mucs.localhost'', sent = []\<rparr>"

definition refusing_transport :: "string \<Rightarrow> string \<Rightarrow> string \<Rightarrow> exn + reply" where
  "refusing_transport http_method url data = Inl (Exn ClientOSError [])"

fun toy_dumps :: "json \<Rightarrow> string" where
  "toy_dumps (JDict kvs) = ''{...}''"
| "toy_dumps j = ''...''"

fun class_render :: "exn \<Rightarrow> string" where
  "class_render (Exn ClientOSError m) = ''ClientOSError()''"
| "class_render (Exn c m) = ''Exception()''"


section \<open>Properties of the middleware\<close>

text \<open>
  C8. Whatever the handler returns, the middleware answers: a response object returned by
  the handler is the answer, unchanged; for every other return value (\<open>None\<close>, or a value
  that is not a response object) the answer is the empty response with status 200. The
  loop is not touched and the handler's effects on its state are kept.
\<close>

theorem mw_capability_forwards_response:
  "capa_handler req (match_info req) s = (Inr capa_resp, s') \<Longrightarrow>
   mw_capability capa_handler req (l, s) =
     (Inr (case capa_resp of WebResponse r \<Rightarrow> r
           | PyNone \<Rightarrow> \<lparr>web_status = 200, web_body = None\<rparr>
           | PyValue v \<Rightarrow> \<lparr>web_status = 200, web_body = None\<rparr>), l, s')"
  by (cases capa_resp) (simp_all add: web_Response_def)

theorem mw_capability_forwards_response_witness:
  "teapot_handler request0 (match_info request0) () =
     (Inr (WebResponse \<lparr>web_status = 418, web_body = Some ''{}''\<rparr>), ()) \<and>
   mw_capability teapot_handler request0 (loop_with_handler, ()) =
     (Inr \<lparr>web_status = 418, web_body = Some ''{}''\<rparr>, loop_with_handler, ()) \<and>
   silent_handler request0 (match_info request0) () = (Inr PyNone, ()) \<and>
   mw_capability silent_handler request0 (loop_with_handler, ()) =
     (Inr \<lparr>web_status = 200, web_body = None\<rparr>, loop_with_handler, ())"
proof -
  have h: "teapot_handler request0 (match_info request0) () =
     (Inr (WebResponse \<lparr>web_status = 418, web_body = Some ''{}''\<rparr>), ())"
    by (simp add: teapot_handler_def)
  have n: "silent_handler request0 (match_info request0) () = (Inr PyNone, ())"
    by (simp add: silent_handler_def)
  show ?thesis
    using h n
      mw_capability_forwards_response
        [of teapot_handler request0 "()" _ "()" loop_with_handler]
      mw_capability_forwards_response
        [of silent_handler request0 "()" PyNone "()" loop_with_handler]
    by simp
qed

text \<open>
  C2 (as the code has it). When the handler raises, the middleware answers nothing: the
  same exception leaves the middleware. Before that, an exception of a class derived from
  \<open>Exception\<close> other than "not found" is handed to the loop's exception handler, once,
  provided a handler has been set on the loop; "not found", an exception outside
  \<open>Exception\<close>, and any exception while no handler is set, are not reported.
\<close>

theorem mw_capability_reraises:
  "capa_handler req (match_info req) s = (Inl exc, s') \<Longrightarrow>
   mw_capability capa_handler req (l, s) =
     (Inl exc,
      (if exn_class_of exc \<noteq> HTTPNotFound \<and> is_Exception (exn_class_of exc)
          \<and> exception_handler l
       then l\<lparr>reported := reported l @ [\<lparr>message = py_str exc, exception = exc\<rparr>]\<rparr>
       else l),
      s')"
  by (simp add: call_exception_handler_def)

theorem mw_capability_reraises_witness:
  "boom_handler request0 (match_info request0) () = (Inl (Exn Exception ''boom''), ()) \<and>
   mw_capability boom_handler request0 (loop_with_handler, ()) =
     (Inl (Exn Exception ''boom''),
      \<lparr>exception_handler = True,
       reported = [\<lparr>message = ''boom'', exception = Exn Exception ''boom''\<rparr>]\<rparr>,
      ()) \<and>
   missing_handler request0 (match_info request0) () =
     (Inl (Exn HTTPNotFound ''Not Found''), ()) \<and>
   mw_capability missing_handler request0 (loop_with_handler, ()) =
     (Inl (Exn HTTPNotFound ''Not Found''), \<lparr>exception_handler = True, reported = []\<rparr>, ())"
proof -
  have h: "boom_handler request0 (match_info request0) () = (Inl (Exn Exception ''boom''), ())"
    by (simp add: boom_handler_def)
  have n: "missing_handler request0 (match_info request0) () =
     (Inl (Exn HTTPNotFound ''Not Found''), ())"
    by (simp add: missing_handler_def)
  show ?thesis
    using h n
      mw_capability_reraises
        [of boom_handler request0 "()" "Exn Exception ''boom''" "()" loop_with_handler]
      mw_capability_reraises
        [of missing_handler request0 "()" "Exn HTTPNotFound ''Not Found''" "()" loop_with_handler]
    by (simp add: loop_with_handler_def)
qed

text \<open>
  The claim as stated fails on a handler that raises \<open>Exception('boom')\<close>: the middleware
  gives no response, the exception leaves it; on a loop with no exception handler set
  nothing is reported either; and an exception outside \<open>Exception\<close> is not reported
  even to a handler that is set.
\<close>

theorem mw_capability_generic_response_counterexample:
  "fst (mw_capability boom_handler request0 (loop_with_handler, ())) =
     Inl (Exn Exception ''boom'') \<and>
   mw_capability boom_handler request0 (loop_without_handler, ()) =
     (Inl (Exn Exception ''boom''), \<lparr>exception_handler = False, reported = []\<rparr>, ()) \<and>
   mw_capability interrupted_handler request0 (loop_with_handler, ()) =
     (Inl (Exn BaseException ''KeyboardInterrupt''),
      \<lparr>exception_handler = True, reported = []\<rparr>, ())"
  by (simp add: boom_handler_def interrupted_handler_def loop_with_handler_def
      loop_without_handler_def)

section \<open>Properties of the agent\<close>

text \<open>
  C3. \<open>stop(timeout)\<close> makes exactly three calls, in this order: the Exposer is shut down,
  the bus is disconnected with the given timeout, the event loop is stopped.
\<close>

theorem stop_order:
  "calls (stop timeout s) =
     calls s @ [Exposer_shutdown, Bus_disconnect (bus s) (Some timeout), Event_loop_stop] \<and>
   event_loop_running (stop timeout s) = False"
  by (simp add: stop_def Let_def record_call_def)

text \<open>A signal stops the agent the same way, with the default timeout of 5.\<close>

lemma abort_order:
  "calls (abort signum s) =
     calls s @ [Exposer_shutdown, Bus_disconnect (bus s) (Some 5), Event_loop_stop]"
  by (simp add: abort_def stop_def Let_def record_call_def)


text \<open>
  On a configuration without the section \<open>log\<close>, \<open>reload\<close> raises after it has saved the
  configuration and disconnected the bus.
\<close>

lemma reload_without_log:
  "py_getitem (config s) ''log'' = Inl e \<Longrightarrow>
   reload s =
     (Inl e,
      s\<lparr>calls := calls s @
         [Write_conf_json (config s) (config_filename s), Bus_disconnect (bus s) None]\<rparr>)"
  by (simp add: reload_def Let_def save_config_def record_call_def)

text \<open>Whether it returns or raises, \<open>reload\<close> keeps the configuration and saves it first.\<close>

lemma reload_config: "config (snd (reload s)) = config s"
  by (simp add: reload_def Let_def save_config_def record_call_def make_bus_def
      split: sum.splits prod.splits if_splits)



lemma reload_calls:
  "prefix (calls s @ [Write_conf_json (config s) (config_filename s)]) (calls (snd (reload s)))"
  by (simp add: reload_def Let_def save_config_def record_call_def make_bus_def prefix_def
      split: sum.splits prod.splits if_splits)

lemma reload_nyuki1: "reload (nyuki0\<lparr>config := config1\<rparr>) = (Inr (), nyuki1)"
  by (simp add: reload_def Let_def save_config_def record_call_def make_bus_def restart_def
      nyuki0_def nyuki1_def config1_def)

lemma merge_port_patch: "shallow_merge (config nyuki0) [port_patch] = Inr config1"
  by (simp add: nyuki0_def config0_def port_patch_def config1_def AList.merge_def)




text \<open>
  C1. On a payload that \<open>merge_configs\<close> rejects with \<open>ValidationError\<close>, PATCH on
  \<open>/config\<close> returns a response with status 400 whose body holds the message of the
  error, and leaves the agent as it was, whatever \<open>reload\<close> is: the configuration is the
  same and no call has been made. On a payload that \<open>merge_configs\<close> accepts, the agent
  is left as \<open>reload\<close> leaves it when run on the agent with the merged configuration; with
  the \<open>reload\<close> of the base class the configuration is then the merged one, and the first
  call made is the saving of the merged configuration.
\<close>

theorem Configuration_patch_validation:
  "(merge_configs (config s) [request] = Inl (Exn ValidationError msg) \<longrightarrow>
      Configuration_patch merge_configs self_reload request s =
        (Inr \<lparr>status = 400, body = JDict [(''error'', JStr msg)]\<rparr>, s)) \<and>
   (merge_configs (config s) [request] = Inr c \<longrightarrow>
      snd (Configuration_patch merge_configs self_reload request s) =
        snd (self_reload (s\<lparr>config := c\<rparr>)) \<and>
      config (snd (Configuration_patch merge_configs reload request s)) = c \<and>
      prefix (calls s @ [Write_conf_json c (config_filename s)])
        (calls (snd (Configuration_patch merge_configs reload request s))))"
proof (intro conjI impI)
  assume "merge_configs (config s) [request] = Inl (Exn ValidationError msg)"
  then show "Configuration_patch merge_configs self_reload request s =
        (Inr \<lparr>status = 400, body = JDict [(''error'', JStr msg)]\<rparr>, s)"
    by (simp add: Configuration_patch_def update_config_def Response_def)
next
  assume m: "merge_configs (config s) [request] = Inr c"
  show "snd (Configuration_patch merge_configs self_reload request s) =
        snd (self_reload (s\<lparr>config := c\<rparr>))"
    using m by (simp add: Configuration_patch_def update_config_def split: prod.splits sum.splits)
  have st: "snd (Configuration_patch merge_configs reload request s) =
        snd (reload (s\<lparr>config := c\<rparr>))"
    using m by (simp add: Configuration_patch_def update_config_def split: prod.splits sum.splits)
  show "config (snd (Configuration_patch merge_configs reload request s)) = c"
    by (simp add: st reload_config)
  show "prefix (calls s @ [Write_conf_json c (config_filename s)])
        (calls (snd (Configuration_patch merge_configs reload request s)))"
    using reload_calls [of "s\<lparr>config := c\<rparr>"] by (simp add: st)
qed

theorem Configuration_patch_validation_witness:
  "shallow_merge (config nyuki0) [JList []] = Inl (Exn ValidationError ''not of type object'') \<and>
   Configuration_patch shallow_merge reload (JList []) nyuki0 =
     (Inr \<lparr>status = 400, body = JDict [(''error'', JStr ''not of type object'')]\<rparr>, nyuki0) \<and>
   shallow_merge (config nyuki0) [port_patch] = Inr config1 \<and>
   config (snd (Configuration_patch shallow_merge reload port_patch nyuki0)) = config1 \<and>
   prefix [Write_conf_json config1 ''conf.json'']
     (calls (snd (Configuration_patch shallow_merge reload port_patch nyuki0)))"
proof -
  have bad: "shallow_merge (config nyuki0) [JList []] =
      Inl (Exn ValidationError ''not of type object'')"
    by (simp add: nyuki0_def config0_def)
  have names: "calls nyuki0 = []" "config_filename nyuki0 = ''conf.json''"
    by (simp_all add: nyuki0_def)
  have rejected: "Configuration_patch shallow_merge reload (JList []) nyuki0 =
     (Inr \<lparr>status = 400, body = JDict [(''error'', JStr ''not of type object'')]\<rparr>, nyuki0)"
    using bad Configuration_patch_validation
        [of shallow_merge nyuki0 "JList []" "''not of type object''" reload config1]
    by blast
  have accepted:
    "config (snd (Configuration_patch shallow_merge reload port_patch nyuki0)) = config1 \<and>
     prefix (calls nyuki0 @ [Write_conf_json config1 (config_filename nyuki0)])
       (calls (snd (Configuration_patch shallow_merge reload port_patch nyuki0)))"
    using merge_port_patch Configuration_patch_validation
        [of shallow_merge nyuki0 port_patch "''not of type object''" reload config1]
    by blast
  show ?thesis
    using bad merge_port_patch rejected accepted by (simp add: names)
qed

text \<open>
  C10. On a payload that \<open>merge_configs\<close> accepts, when \<open>reload\<close> returns normally, PATCH
  on \<open>/config\<close> returns a response with status 200 whose body is the whole configuration
  of the agent as \<open>reload\<close> left it; with the \<open>reload\<close> of the base class, that is the
  merged configuration.
\<close>

theorem Configuration_patch_body:
  "merge_configs (config s) [request] = Inr c \<Longrightarrow>
   (self_reload (s\<lparr>config := c\<rparr>) = (Inr (), s2) \<longrightarrow>
      Configuration_patch merge_configs self_reload request s =
        (Inr \<lparr>status = 200, body = config s2\<rparr>, s2)) \<and>
   (reload (s\<lparr>config := c\<rparr>) = (Inr (), s3) \<longrightarrow>
      Configuration_patch merge_configs reload request s =
        (Inr \<lparr>status = 200, body = c\<rparr>, s3))"
proof (intro conjI impI)
  assume m: "merge_configs (config s) [request] = Inr c"
  {
    assume "self_reload (s\<lparr>config := c\<rparr>) = (Inr (), s2)"
    with m show "Configuration_patch merge_configs self_reload request s =
        (Inr \<lparr>status = 200, body = config s2\<rparr>, s2)"
      by (simp add: Configuration_patch_def update_config_def Response_def)
  }
  {
    assume r: "reload (s\<lparr>config := c\<rparr>) = (Inr (), s3)"
    have "config s3 = c"
      using reload_config [of "s\<lparr>config := c\<rparr>"] r by simp
    with m r show "Configuration_patch merge_configs reload request s =
        (Inr \<lparr>status = 200, body = c\<rparr>, s3)"
      by (simp add: Configuration_patch_def update_config_def Response_def)
  }
qed

theorem Configuration_patch_body_witness:
  "shallow_merge (config nyuki0) [port_patch] = Inr config1 \<and>
   stamping_reload (nyuki0\<lparr>config := config1\<rparr>) =
     (Inr (), nyuki0\<lparr>config := JDict [(''reloaded'', JBool True)]\<rparr>) \<and>
   Configuration_patch shallow_merge stamping_reload port_patch nyuki0 =
     (Inr \<lparr>status = 200, body = JDict [(''reloaded'', JBool True)]\<rparr>,
      nyuki0\<lparr>config := JDict [(''reloaded'', JBool True)]\<rparr>) \<and>
   reload (nyuki0\<lparr>config := config1\<rparr>) = (Inr (), nyuki1) \<and>
   Configuration_patch shallow_merge reload port_patch nyuki0 =
     (Inr \<lparr>status = 200, body = config1\<rparr>, nyuki1)"
proof -
  have stamp: "stamping_reload (nyuki0\<lparr>config := config1\<rparr>) =
     (Inr (), nyuki0\<lparr>config := JDict [(''reloaded'', JBool True)]\<rparr>)"
    by (simp add: stamping_reload_def)
  have cfg: "config (nyuki0\<lparr>config := JDict [(''reloaded'', JBool True)]\<rparr>) =
     JDict [(''reloaded'', JBool True)]"
    by simp
  show ?thesis
    using merge_port_patch stamp reload_nyuki1 cfg
      Configuration_patch_body
        [of shallow_merge nyuki0 port_patch config1 stamping_reload
          "nyuki0\<lparr>config := JDict [(''reloaded'', JBool True)]\<rparr>" nyuki1]
    by simp
qed

section \<open>Properties of the sample agent\<close>

lemma match_Message_path: "match_Message (''/message/'' @ seg) = (if numeric seg then Some seg else None)"
  by (simp add: match_Message_def)

text \<open>
  C7. GET on \<open>/message/{mid}\<close> with a numeric \<open>mid\<close> that is not in the message store
  returns a response with status 404 whose body holds an error message, and leaves the
  agent as it was. With a segment that is not numeric the route does not match: "not
  found" is raised by the routing, whatever the handler is, so no handler has run.
\<close>

theorem Message_get_unknown:
  "(numeric mid \<and> map_of (messages s) mid = None \<longrightarrow>
      route_Message Message_get (''/message/'' @ mid) request s =
        (Inr \<lparr>status = 404, body = JDict [(''message'', JStr ''message does not exists'')]\<rparr>, s)) \<and>
   (\<not> numeric seg \<longrightarrow>
      route_Message handler (''/message/'' @ seg) request t =
        (Inl (Exn HTTPNotFound ''Not Found''), t))"
  unfolding route_Message_def match_Message_path
  by (simp add: Message_get_def Response_def)

theorem Message_get_unknown_witness:
  "numeric ''3'' \<and> map_of (messages sample0) ''3'' = None \<and>
   route_Message Message_get ''/message/3'' JNull sample0 =
     (Inr \<lparr>status = 404, body = JDict [(''message'', JStr ''message does not exists'')]\<rparr>,
      sample0) \<and>
   \<not> numeric ''abc'' \<and>
   route_Message Message_get ''/message/abc'' JNull sample0 =
     (Inl (Exn HTTPNotFound ''Not Found''), sample0)"
proof -
  have n: "numeric ''3''" "\<not> numeric ''abc''"
    by (simp_all add: numeric_def is_digit_def)
  have m: "map_of (messages sample0) ''3'' = None"
    by (simp add: sample0_def Sample_messages_def)
  show ?thesis
    using n m Message_get_unknown [of "''3''" sample0 JNull "''abc''" Message_get sample0]
    by simp
qed

text \<open>A known message is returned with status 200.\<close>

lemma Message_get_known:
  "map_of (messages s) mid = Some v \<Longrightarrow>
   Message_get request mid s = (Inr \<lparr>status = 200, body = JDict [(''message'', v)]\<rparr>, s)"
  by (simp add: Message_get_def Response_def)

text \<open>Writing a key that a dict does not have appends the entry, as in Python.\<close>

lemma update_absent_appends:
  "map_of al k = None \<Longrightarrow> AList.update k v al = al @ [(k, v)]"
  by (induction al) (auto split: if_splits)

text \<open>
  C9. PATCH on \<open>/message/{mid}\<close> with a JSON object that has no key \<open>message\<close> returns a
  response with status 400 and the body \<open>{'message': 'missing message'}\<close>, and leaves the
  store as it was. With an object that has the key, it returns status 200 with the value
  in the body and the store maps \<open>mid\<close> to the value and is otherwise as before, whether
  \<open>mid\<close> was in the store or not; a \<open>mid\<close> that was not there is a new entry, at the end.
\<close>

theorem Message_patch_upsert:
  "(map_of kvs ''message'' = None \<longrightarrow>
      Message_patch (JDict kvs) mid s =
        (Inr \<lparr>status = 400, body = JDict [(''message'', JStr ''missing message'')]\<rparr>, s)) \<and>
   (map_of kvs ''message'' = Some v \<longrightarrow>
      Message_patch (JDict kvs) mid s =
        (Inr \<lparr>status = 200, body = JDict [(''message'', v)]\<rparr>,
         s\<lparr>messages := AList.update mid v (messages s)\<rparr>) \<and>
      map_of (messages (snd (Message_patch (JDict kvs) mid s))) =
        (map_of (messages s))(mid \<mapsto> v) \<and>
      (map_of (messages s) mid = None \<longrightarrow>
         messages (snd (Message_patch (JDict kvs) mid s)) = messages s @ [(mid, v)]))"
proof (intro conjI impI)
  assume "map_of kvs ''message'' = None"
  then show "Message_patch (JDict kvs) mid s =
        (Inr \<lparr>status = 400, body = JDict [(''message'', JStr ''missing message'')]\<rparr>, s)"
    by (simp add: Message_patch_def Response_def)
next
  assume v: "map_of kvs ''message'' = Some v"
  then show p: "Message_patch (JDict kvs) mid s =
        (Inr \<lparr>status = 200, body = JDict [(''message'', v)]\<rparr>,
         s\<lparr>messages := AList.update mid v (messages s)\<rparr>)"
    by (simp add: Message_patch_def Response_def Let_def update_conv')
  show "map_of (messages (snd (Message_patch (JDict kvs) mid s))) =
        (map_of (messages s))(mid \<mapsto> v)"
    by (simp add: p update_conv')
  assume "map_of (messages s) mid = None"
  then show "messages (snd (Message_patch (JDict kvs) mid s)) = messages s @ [(mid, v)]"
    by (simp add: p update_absent_appends)
qed

theorem Message_patch_upsert_witness:
  "map_of [] ''message'' = (None :: json option) \<and>
   Message_patch (JDict []) ''7'' sample0 =
     (Inr \<lparr>status = 400, body = JDict [(''message'', JStr ''missing message'')]\<rparr>, sample0) \<and>
   map_of [(''message'', JStr ''hi'')] ''message'' = Some (JStr ''hi'') \<and>
   map_of (messages sample0) ''7'' = None \<and>
   fst (Message_patch (JDict [(''message'', JStr ''hi'')]) ''7'' sample0) =
     Inr \<lparr>status = 200, body = JDict [(''message'', JStr ''hi'')]\<rparr> \<and>
   messages (snd (Message_patch (JDict [(''message'', JStr ''hi'')]) ''7'' sample0)) =
     [(''1'', JStr ''message 1''), (''2'', JStr ''message 2''), (''7'', JStr ''hi'')]"
proof -
  have absent: "map_of (messages sample0) ''7'' = None"
    by (simp add: sample0_def Sample_messages_def)
  have store: "messages sample0 = [(''1'', JStr ''message 1''), (''2'', JStr ''message 2'')]"
    by (simp add: sample0_def Sample_messages_def)
  have key: "map_of [(''message'', JStr ''hi'')] ''message'' = Some (JStr ''hi'')"
    by simp
  have missing: "Message_patch (JDict []) ''7'' sample0 =
     (Inr \<lparr>status = 400, body = JDict [(''message'', JStr ''missing message'')]\<rparr>, sample0)"
    using Message_patch_upsert [of "[]" "''7''" sample0 "JStr ''hi''"] by simp
  have stored:
    "fst (Message_patch (JDict [(''message'', JStr ''hi'')]) ''7'' sample0) =
       Inr \<lparr>status = 200, body = JDict [(''message'', JStr ''hi'')]\<rparr> \<and>
     messages (snd (Message_patch (JDict [(''message'', JStr ''hi'')]) ''7'' sample0)) =
       messages sample0 @ [(''7'', JStr ''hi'')]"
    using absent key
      Message_patch_upsert [of "[(''message'', JStr ''hi'')]" "''7''" sample0 "JStr ''hi''"]
    by (metis fst_conv)
  show ?thesis
    using absent missing stored by (simp add: store)
qed

text \<open>
  A body that is not a JSON object has no keys: \<open>request['message']\<close> raises \<open>TypeError\<close>,
  which the handler does not catch.
\<close>

lemma Message_patch_not_an_object:
  "\<not> is_dict request \<Longrightarrow>
   Message_patch request mid s =
     (Inl (Exn TypeError ''not subscriptable with a string key''), s)"
  by (cases request) (simp_all add: Message_patch_def)


section \<open>Properties of the bus\<close>

text \<open>
  C6. \<open>publish\<close> of a payload that is not a dict fails with \<open>TypeError\<close> and hands nothing
  to the transport: the bus is as it was. \<open>publish\<close> of a dict hands exactly one stanza to
  the transport, addressed to the room of the agent's own topic, whose body is the JSON
  of the payload, and returns at once.
\<close>

theorem bus_publish_dict_only:
  "(\<not> is_dict payload \<longrightarrow>
      (\<exists>m. fst (bus_publish dumps payload b) = Inl (Exn TypeError m)) \<and>
      snd (bus_publish dumps payload b) = b) \<and>
   (is_dict payload \<longrightarrow>
      bus_publish dumps payload b =
        (Inr (),
         b\<lparr>sent := sent b @
            [\<lparr>mto = topic b @ ''@'' @ mucs_domain b, mbody = dumps payload\<rparr>]\<rparr>))"
  by (simp add: bus_publish_def muc_address_def)

theorem bus_publish_dict_only_witness:
  "\<not> is_dict (JStr ''not a dict'') \<and>
   snd (bus_publish toy_dumps (JStr ''not a dict'') test_bus) = test_bus \<and>
   is_dict (JDict [(''message'', JStr ''test'')]) \<and>
   bus_publish toy_dumps (JDict [(''message'', JStr ''test'')]) test_bus =
     (Inr (),
      \<lparr>topic = ''login'', mucs_domain = ''mucs.localhost'',
       sent = [\<lparr>mto = ''login@mucs.localhost'', mbody = ''{...}''\<rparr>]\<rparr>)"
proof -
  have refused: "snd (bus_publish toy_dumps (JStr ''not a dict'') test_bus) = test_bus"
    using bus_publish_dict_only [of "JStr ''not a dict''" toy_dumps test_bus] by simp
  have sent: "bus_publish toy_dumps (JDict [(''message'', JStr ''test'')]) test_bus =
     (Inr (),
      test_bus\<lparr>sent := sent test_bus @
        [\<lparr>mto = topic test_bus @ ''@'' @ mucs_domain test_bus,
          mbody = toy_dumps (JDict [(''message'', JStr ''test'')])\<rparr>]\<rparr>)"
    using bus_publish_dict_only [of "JDict [(''message'', JStr ''test'')]" toy_dumps test_bus]
    by simp
  show ?thesis
    using refused sent by (simp add: test_bus_def)
qed

text \<open>
  C5. When the transport fails with an exception, \<open>request\<close> does not raise it: it
  returns it, and it has published exactly one document, to the room of the agent's own
  topic, with the URL of the endpoint, a rendering of the exception, and the data of the
  request.
\<close>

theorem bus_request_transport_error:
  "transport http_method (request_url recipient endpoint_name) (dumps data) = Inl exc \<Longrightarrow>
   bus_request dumps render transport recipient endpoint_name http_method data b =
     (Inr (Failed exc),
      b\<lparr>sent := sent b @
         [\<lparr>mto = topic b @ ''@'' @ mucs_domain b,
           mbody = dumps (JDict [(''endpoint'', JStr (request_url recipient endpoint_name)),
                                 (''error'', JStr (render exc)),
                                 (''data'', data)])\<rparr>]\<rparr>)"
  by (simp add: bus_request_def bus_publish_def muc_address_def Let_def)

theorem bus_request_transport_error_witness:
  "refusing_transport ''get'' (request_url None ''url'')
       (toy_dumps (JDict [(''message'', JStr ''text'')])) = Inl (Exn ClientOSError []) \<and>
   bus_request toy_dumps class_render refusing_transport None ''url'' ''get''
       (JDict [(''message'', JStr ''text'')]) test_bus =
     (Inr (Failed (Exn ClientOSError [])),
      \<lparr>topic = ''login'', mucs_domain = ''mucs.localhost'',
       sent = [\<lparr>mto = ''login@mucs.localhost'', mbody = ''{...}''\<rparr>]\<rparr>)"
proof -
  have refused: "refusing_transport ''get'' (request_url None ''url'')
       (toy_dumps (JDict [(''message'', JStr ''text'')])) = Inl (Exn ClientOSError [])"
    by (simp add: refusing_transport_def)
  show ?thesis
    using refused
      bus_request_transport_error
        [of refusing_transport "''get''" None "''url''" toy_dumps
          "JDict [(''message'', JStr ''text'')]" "Exn ClientOSError []" class_render test_bus]
    by (simp add: test_bus_def)
qed

text \<open>
  The run of \<open>test_001c_request_error\<close>: the document that is published, whatever
  \<open>json.dumps\<close> is.
\<close>

lemma test_001c_request_error:
  "bus_request dumps class_render refusing_transport None ''url'' ''get''
       (JDict [(''message'', JStr ''text'')]) test_bus =
     (Inr (Failed (Exn ClientOSError [])),
      \<lparr>topic = ''login'', mucs_domain = ''mucs.localhost'',
       sent =
         [\<lparr>mto = ''login@mucs.localhost'',
           mbody = dumps (JDict [(''endpoint'', JStr ''http://localhost:8080/None/api/url''),
                                 (''error'', JStr ''ClientOSError()''),
                                 (''data'', JDict [(''message'', JStr ''text'')])])\<rparr>]\<rparr>)"
  by (simp add: bus_request_def bus_publish_def muc_address_def Let_def request_url_def
      refusing_transport_def test_bus_def)

end
